theory Spec2Isabelle
  imports Complex_Main "HOL-Library.AList"
begin

section \<open>Data model of the monster service\<close>

text \<open>
  The embedding follows \<open>MonsterService\<close> (the tick-driven monster registry) and the chat
  fan-out of \<open>GameService\<close>. JavaScript numbers that the code keeps integral (all stats are
  produced by \<open>Math.floor\<close>, timestamps are milliseconds) are \<open>int\<close>; coordinates, spawn
  weights and the results of \<open>Math.random()\<close> are \<open>real\<close>. Every reading of the clock and
  of the random source is an explicit argument.
\<close>

datatype monster_kind = Goblin | Orc | Skeleton | Dragon | Wolf | Spider

datatype monster_state = Idle | Patrolling | Chasing | Attacking | Dead

record position =
  pos_x :: real
  pos_y :: real
  mapId :: int

record monster =
  monster_id :: string
  name :: string
  kind :: monster_kind
  level :: int
  hp :: int
  maxHp :: int
  mp :: int
  maxMp :: int
  attack :: int
  defense :: int
  experience :: int
  goldDrop :: int
  position :: position
  state :: monster_state
  target :: "string option"
  lastAction :: int
  respawnTime :: "int option"
  aggroRange :: int
  patrolRange :: int
  originalPosition :: "real \<times> real"

record monsterTemplate =
  t_name :: string
  t_kind :: monster_kind
  baseLevel :: int
  levelVariance :: int
  baseHp :: int
  baseAttack :: int
  baseDefense :: int
  baseExperience :: int
  baseGold :: int
  t_aggroRange :: int
  t_patrolRange :: int
  attackSpeed :: int
  moveSpeed :: int
  spawnMaps :: "int list"
  spawnChance :: real

text \<open>The payload of \<open>getMonsterPublicData\<close>.\<close>

record publicData =
  pd_id :: string
  pd_name :: string
  pd_kind :: monster_kind
  pd_level :: int
  pd_hp :: int
  pd_maxHp :: int
  pd_position :: position
  pd_state :: monster_state

text \<open>The messages handed to \<open>broadcastToMap\<close>, one constructor per \<open>type\<close> tag.\<close>

datatype message =
    Monster_spawn publicData
  | Monster_damaged string int int int
  | Monster_died string int int int position
  | Monster_moved string position
  | Monster_attack string string int position

type_synonym broadcast = "int \<times> message"

text \<open>The return value of \<open>damageMonster\<close> and \<open>killMonster\<close>.\<close>

record reward =
  killed :: bool
  r_experience :: int
  r_gold :: int

text \<open>
  \<open>activeMonsters\<close> is a JavaScript \<open>Map\<close>: an association list in insertion order, read
  with \<open>map_of\<close> and written with \<open>AList.update\<close> (an existing key keeps its place, a new
  key goes to the end).
\<close>

record service =
  activeMonsters :: "(string \<times> monster) list"
  lastSpawnCheck :: int

section \<open>Damage, death and respawn\<close>

definition getMonsterPublicData :: "monster \<Rightarrow> publicData" where
  "getMonsterPublicData m =
     \<lparr>pd_id = monster_id m, pd_name = name m, pd_kind = kind m, pd_level = level m,
      pd_hp = hp m, pd_maxHp = maxHp m, pd_position = position m, pd_state = state m\<rparr>"

text \<open>Decimal rendering of \<open>Number.prototype.toString\<close> on an integer.\<close>

fun digits :: "nat \<Rightarrow> string" where
  "digits n = (if n < 10 then [char_of (48 + n)]
               else digits (n div 10) @ [char_of (48 + n mod 10)])"

declare digits.simps [simp del]

definition toString :: "int \<Rightarrow> string" where
  "toString i = (if i < 0 then CHR ''-'' # digits (nat (- i)) else digits (nat i))"

text \<open>\<open>killMonster\<close>; \<open>now\<close> is the reading of \<open>Date.now()\<close> at the kill.\<close>

definition killMonster :: "monster \<Rightarrow> int \<Rightarrow> int \<Rightarrow> reward \<times> monster \<times> broadcast list" where
  "killMonster m killerId now =
     (let m' = m\<lparr>state := Dead, target := None, respawnTime := Some (now + 30000)\<rparr>
      in (\<lparr>killed = True, r_experience = experience m', r_gold = goldDrop m'\<rparr>,
          m',
          [(mapId (position m'),
            Monster_died (monster_id m') killerId (experience m') (goldDrop m') (position m'))]))"

text \<open>
  \<open>damageMonster\<close>: the result, the service afterwards and the broadcasts in the order
  they are issued.
\<close>

definition damageMonster ::
  "service \<Rightarrow> string \<Rightarrow> int \<Rightarrow> int \<Rightarrow> int \<Rightarrow> reward \<times> service \<times> broadcast list" where
  "damageMonster st monsterId damage attackerId now =
     (case map_of (activeMonsters st) monsterId of
        None \<Rightarrow> (\<lparr>killed = False, r_experience = 0, r_gold = 0\<rparr>, st, [])
      | Some m \<Rightarrow>
          if state m = Dead then (\<lparr>killed = False, r_experience = 0, r_gold = 0\<rparr>, st, [])
          else
            let actualDamage = max 1 (damage - defense m);
                m1 = m\<lparr>hp := max 0 (hp m - actualDamage)\<rparr>;
                m2 = (if hp m1 > 0
                      then m1\<lparr>target := Some (toString attackerId), state := Chasing\<rparr>
                      else m1);
                ev = (mapId (position m2),
                      Monster_damaged (monster_id m2) actualDamage (hp m2) (maxHp m2))
            in if hp m2 \<le> 0
               then (case killMonster m2 attackerId now of
                       (res, m3, evs) \<Rightarrow>
                         (res,
                          st\<lparr>activeMonsters := AList.update monsterId m3 (activeMonsters st)\<rparr>,
                          ev # evs))
               else (\<lparr>killed = False, r_experience = 0, r_gold = 0\<rparr>,
                     st\<lparr>activeMonsters := AList.update monsterId m2 (activeMonsters st)\<rparr>,
                     [ev]))"

text \<open>\<open>respawnMonster\<close>: the reset of one monster, then the method on the registry.\<close>

definition respawnReset :: "monster \<Rightarrow> int \<Rightarrow> monster" where
  "respawnReset m now =
     m\<lparr>hp := maxHp m, mp := maxMp m, state := Idle, target := None,
       position := (position m)\<lparr>pos_x := fst (originalPosition m),
                                 pos_y := snd (originalPosition m)\<rparr>,
       respawnTime := None, lastAction := now\<rparr>"

definition respawnMonster :: "service \<Rightarrow> string \<Rightarrow> int \<Rightarrow> service \<times> broadcast list" where
  "respawnMonster st monsterId now =
     (case map_of (activeMonsters st) monsterId of
        None \<Rightarrow> (st, [])
      | Some m \<Rightarrow>
          let m' = respawnReset m now
          in (st\<lparr>activeMonsters := AList.update monsterId m' (activeMonsters st)\<rparr>,
              [(mapId (position m'), Monster_spawn (getMonsterPublicData m'))]))"

section \<open>Template catalogue and map boundaries\<close>

definition mkTemplate ::
  "string \<Rightarrow> monster_kind \<Rightarrow> int \<Rightarrow> int \<Rightarrow> int \<Rightarrow> int \<Rightarrow> int \<Rightarrow> int \<Rightarrow> int \<Rightarrow> int \<Rightarrow> int \<Rightarrow> int
     \<Rightarrow> int \<Rightarrow> int list \<Rightarrow> real \<Rightarrow> monsterTemplate" where
  "mkTemplate n k bl lv bh ba bd be bg ar pr asp ms maps ch =
     \<lparr>t_name = n, t_kind = k, baseLevel = bl, levelVariance = lv, baseHp = bh,
      baseAttack = ba, baseDefense = bd, baseExperience = be, baseGold = bg,
      t_aggroRange = ar, t_patrolRange = pr, attackSpeed = asp, moveSpeed = ms,
      spawnMaps = maps, spawnChance = ch\<rparr>"

text \<open>\<open>initializeMonsterTemplates\<close>: the six templates in the order they are inserted.\<close>

definition templates :: "monsterTemplate list" where
  "templates =
     [mkTemplate ''Goblin Warrior'' Goblin 1 3 50 15 5 25 5 50 30 2000 25 [1, 2] (8 / 10),
      mkTemplate ''Forest Wolf'' Wolf 3 2 80 25 8 45 8 70 50 1500 40 [2] (6 / 10),
      mkTemplate ''Orc Berserker'' Orc 8 3 150 40 15 100 20 60 40 2500 30 [2, 3] (4 / 10),
      mkTemplate ''Ancient Skeleton'' Skeleton 12 4 200 60 20 180 35 80 20 3000 20 [3] (3 / 10),
      mkTemplate ''Giant Spider'' Spider 15 2 250 75 25 250 50 90 60 1800 35 [3] (2 / 10),
      mkTemplate ''Fire Dragon'' Dragon 50 10 2000 300 100 5000 1000 150 100 4000 50 [3] (1 / 100)]"

definition monsterTemplates :: "(monster_kind \<times> monsterTemplate) list" where
  "monsterTemplates = map (\<lambda>t. (t_kind t, t)) templates"

record boundaries =
  minX :: real
  maxX :: real
  minY :: real
  maxY :: real

definition mapBoundaries :: "(int \<times> boundaries) list" where
  "mapBoundaries =
     [(1, \<lparr>minX = 0, maxX = 1000, minY = 0, maxY = 1000\<rparr>),
      (2, \<lparr>minX = 0, maxX = 1500, minY = 0, maxY = 1500\<rparr>),
      (3, \<lparr>minX = 0, maxX = 2000, minY = 0, maxY = 2000\<rparr>)]"

definition isValidPosition :: "real \<Rightarrow> real \<Rightarrow> int \<Rightarrow> bool" where
  "isValidPosition x y mid =
     (case map_of mapBoundaries mid of
        None \<Rightarrow> False
      | Some b \<Rightarrow> x \<ge> minX b \<and> x \<le> maxX b \<and> y \<ge> minY b \<and> y \<le> maxY b)"

definition getDistance :: "real \<Rightarrow> real \<Rightarrow> real \<Rightarrow> real \<Rightarrow> real" where
  "getDistance x1 y1 x2 y2 = sqrt ((x2 - x1)\<^sup>2 + (y2 - y1)\<^sup>2)"

definition generateRandomPosition :: "int \<Rightarrow> real \<Rightarrow> real \<Rightarrow> real \<times> real" where
  "generateRandomPosition mid rx ry =
     (case map_of mapBoundaries mid of
        None \<Rightarrow> (100, 100)
      | Some b \<Rightarrow> (rx * (maxX b - minX b) + minX b, ry * (maxY b - minY b) + minY b))"

section \<open>The per-tick state machine\<close>

text \<open>
  What one monster's evaluation reads from outside during a tick: \<open>clk\<close> is the clock as
  the handlers read it (\<open>Date.now()\<close>, \<open>new Date()\<close>), the other fields are the results of
  the calls of \<open>Math.random()\<close>, one field per call site. Where the code floors a
  multiple of the draw at once, the field is that integer, since the product is rounded
  to a double before the floor: \<open>rnd_player\<close> is the value of
  \<open>Math.floor(Math.random() * 1000)\<close>, from 0 to 999, and \<open>rnd_damage\<close> the value of
  \<open>Math.floor(Math.random() * 10)\<close>, from 0 to 9.
\<close>

record draws =
  clk :: int
  rnd_patrol :: real
  rnd_angle :: real
  rnd_idle :: real
  rnd_aggro :: real
  rnd_player :: int
  rnd_damage :: int
  rnd_disengage :: real

text \<open>\<open>!monster.target\<close>: undefined and the empty string are both falsy.\<close>

definition noTarget :: "monster \<Rightarrow> bool" where
  "noTarget m = (target m = None \<or> target m = Some [])"

definition broadcastMonsterMovement :: "monster \<Rightarrow> broadcast" where
  "broadcastMonsterMovement m =
     (mapId (position m), Monster_moved (monster_id m) (position m))"

definition handleIdleState :: "monster \<Rightarrow> draws \<Rightarrow> monster" where
  "handleIdleState m e = (if rnd_patrol e < 3 / 10 then m\<lparr>state := Patrolling\<rparr> else m)"

definition moveTo :: "monster \<Rightarrow> real \<Rightarrow> real \<Rightarrow> monster \<times> broadcast list" where
  "moveTo m newX newY =
     (if isValidPosition newX newY (mapId (position m))
      then (let m' = m\<lparr>position := (position m)\<lparr>pos_x := newX, pos_y := newY\<rparr>\<rparr>
            in (m', [broadcastMonsterMovement m']))
      else (m, []))"

definition moveMonsterTowards :: "monster \<Rightarrow> real \<Rightarrow> real \<Rightarrow> monster \<times> broadcast list" where
  "moveMonsterTowards m targetX targetY =
     (case map_of monsterTemplates (kind m) of
        None \<Rightarrow> (m, [])
      | Some t \<Rightarrow>
          let distance = getDistance (pos_x (position m)) (pos_y (position m)) targetX targetY
          in if distance = 0 then (m, [])
             else
               let moveDistance = real_of_int (moveSpeed t) * (1 / 2);
                   ratio = min (moveDistance / distance) 1;
                   newX = pos_x (position m) + (targetX - pos_x (position m)) * ratio;
                   newY = pos_y (position m) + (targetY - pos_y (position m)) * ratio
               in moveTo m newX newY)"

definition handlePatrolState :: "monster \<Rightarrow> draws \<Rightarrow> monster \<times> broadcast list" where
  "handlePatrolState m e =
     (case map_of monsterTemplates (kind m) of
        None \<Rightarrow> (m, [])
      | Some t \<Rightarrow>
          let distance = getDistance (pos_x (position m)) (pos_y (position m))
                           (fst (originalPosition m)) (snd (originalPosition m));
              (m1, evs) =
                (if distance > real_of_int (patrolRange m)
                 then moveMonsterTowards m (fst (originalPosition m)) (snd (originalPosition m))
                 else
                   let angle = rnd_angle e * 2 * pi;
                       moveDistance = real_of_int (moveSpeed t) * (1 / 2);
                       newX = pos_x (position m) + cos angle * moveDistance;
                       newY = pos_y (position m) + sin angle * moveDistance
                   in moveTo m newX newY)
          in (if rnd_idle e < 2 / 10 then m1\<lparr>state := Idle\<rparr> else m1, evs))"

definition handleChaseState :: "monster \<Rightarrow> draws \<Rightarrow> monster" where
  "handleChaseState m e =
     (if noTarget m then m\<lparr>state := Idle\<rparr>
      else case map_of monsterTemplates (kind m) of
             None \<Rightarrow> m
           | Some t \<Rightarrow>
               let timeSinceChase = clk e - lastAction m
               in if timeSinceChase > 10000
                  then m\<lparr>state := Patrolling, target := None\<rparr>
                  else m\<lparr>state := Attacking\<rparr>)"

definition attackDamage :: "monster \<Rightarrow> int \<Rightarrow> int" where
  "attackDamage m k = attack m + k - 5"

definition performMonsterAttack :: "monster \<Rightarrow> draws \<Rightarrow> monster \<times> broadcast list" where
  "performMonsterAttack m e =
     (case target m of
        None \<Rightarrow> (m, [])
      | Some tg \<Rightarrow>
          if tg = [] then (m, [])
          else
            let damage = attackDamage m (rnd_damage e)
            in (if rnd_disengage e < 3 / 10 then m\<lparr>state := Chasing\<rparr> else m,
                [(mapId (position m),
                  Monster_attack (monster_id m) tg damage (position m))]))"

definition handleAttackState :: "monster \<Rightarrow> draws \<Rightarrow> monster \<times> broadcast list" where
  "handleAttackState m e =
     (if noTarget m then (m\<lparr>state := Idle\<rparr>, [])
      else case map_of monsterTemplates (kind m) of
             None \<Rightarrow> (m, [])
           | Some t \<Rightarrow>
               let timeSinceLastAttack = clk e - lastAction m
               in if timeSinceLastAttack \<ge> attackSpeed t
                  then (case performMonsterAttack m e of
                          (m', evs) \<Rightarrow> (m'\<lparr>lastAction := clk e\<rparr>, evs))
                  else (m, []))"

definition checkForPlayerAggro :: "monster \<Rightarrow> draws \<Rightarrow> monster" where
  "checkForPlayerAggro m e =
     (if rnd_aggro e < 5 / 100
      then m\<lparr>state := Chasing,
             target := Some (''player_'' @ toString (rnd_player e))\<rparr>
      else m)"

text \<open>
  The body of the loop of \<open>updateMonsters\<close> for one entry; \<open>now\<close> is the clock read once
  at the start of the tick. The keys of a \<open>Map\<close> are unique, so the lookup of
  \<open>respawnMonster(monsterId)\<close> inside the loop finds the entry being visited.
\<close>

definition updateMonster :: "int \<Rightarrow> draws \<Rightarrow> monster \<Rightarrow> monster \<times> broadcast list" where
  "updateMonster now e m =
     (if state m = Dead
      then (case respawnTime m of
              None \<Rightarrow> (m, [])
            | Some t \<Rightarrow>
                if now > t
                then (let m' = respawnReset m (clk e)
                      in (m', [(mapId (position m'), Monster_spawn (getMonsterPublicData m'))]))
                else (m, []))
      else
        let (m1, evs) =
              (case state m of
                 Idle \<Rightarrow> (handleIdleState m e, [])
               | Patrolling \<Rightarrow> handlePatrolState m e
               | Chasing \<Rightarrow> (handleChaseState m e, [])
               | Attacking \<Rightarrow> handleAttackState m e
               | Dead \<Rightarrow> (m, []));
            m2 = (if state m1 = Idle \<or> state m1 = Patrolling
                  then checkForPlayerAggro m1 e else m1)
        in (m2\<lparr>lastAction := now\<rparr>, evs))"

definition updateMonsters ::
  "service \<Rightarrow> int \<Rightarrow> (string \<Rightarrow> draws) \<Rightarrow> service \<times> broadcast list" where
  "updateMonsters st now env =
     (let rs = map (\<lambda>(k, m). (k, updateMonster now (env k) m)) (activeMonsters st)
      in (st\<lparr>activeMonsters := map (\<lambda>(k, r). (k, fst r)) rs\<rparr>,
          concat (map (\<lambda>(k, r). snd r) rs)))"

section \<open>Spawning\<close>

text \<open>
  What one spawn attempt reads from outside: the id built from the clock and a random
  suffix, the clock for \<open>lastAction\<close>, and the results of \<open>Math.random()\<close>. The level
  multiplier and the products with it are taken in exact arithmetic, where the code
  rounds each to a double before the floor.
\<close>

record spawnDraws =
  new_id :: string
  spawn_clk :: int
  rnd_select :: real
  rnd_gate :: real
  rnd_x :: real
  rnd_y :: real
  rnd_level :: real

definition spawnMonster ::
  "service \<Rightarrow> monsterTemplate \<Rightarrow> int \<Rightarrow> spawnDraws \<Rightarrow> service \<times> broadcast list" where
  "spawnMonster st t mid d =
     (let pos = generateRandomPosition mid (rnd_x d) (rnd_y d);
          lvl = baseLevel t + \<lfloor>rnd_level d * real_of_int (levelVariance t)\<rfloor>;
          levelMultiplier = 1 + real_of_int (lvl - baseLevel t) * (2 / 10);
          m = \<lparr>monster_id = new_id d, name = t_name t, kind = t_kind t, level = lvl,
               hp = \<lfloor>real_of_int (baseHp t) * levelMultiplier\<rfloor>,
               maxHp = \<lfloor>real_of_int (baseHp t) * levelMultiplier\<rfloor>,
               mp = 50, maxMp = 50,
               attack = \<lfloor>real_of_int (baseAttack t) * levelMultiplier\<rfloor>,
               defense = \<lfloor>real_of_int (baseDefense t) * levelMultiplier\<rfloor>,
               experience = \<lfloor>real_of_int (baseExperience t) * levelMultiplier\<rfloor>,
               goldDrop = \<lfloor>real_of_int (baseGold t) * levelMultiplier\<rfloor>,
               position = \<lparr>pos_x = fst pos, pos_y = snd pos, mapId = mid\<rparr>,
               state = Idle, target = None, lastAction = spawn_clk d, respawnTime = None,
               aggroRange = t_aggroRange t, patrolRange = t_patrolRange t,
               originalPosition = (fst pos, snd pos)\<rparr>
      in (st\<lparr>activeMonsters := AList.update (monster_id m) m (activeMonsters st)\<rparr>,
          [(mid, Monster_spawn (getMonsterPublicData m))]))"

text \<open>The selection loop of \<open>trySpawnMonster\<close>: subtract each weight in turn.\<close>

fun selectTemplate :: "real \<Rightarrow> monsterTemplate list \<Rightarrow> monsterTemplate option" where
  "selectTemplate random [] = None"
| "selectTemplate random (t # ts) =
     (let random' = random - spawnChance t
      in if random' \<le> 0 then Some t else selectTemplate random' ts)"

definition trySpawnMonster :: "service \<Rightarrow> int \<Rightarrow> spawnDraws \<Rightarrow> service \<times> broadcast list" where
  "trySpawnMonster st mid d =
     (let availableTemplates = filter (\<lambda>t. mid \<in> set (spawnMaps t)) (map snd monsterTemplates)
      in if length availableTemplates = 0 then (st, [])
         else
           let totalWeight = foldl (\<lambda>s t. s + spawnChance t) 0 availableTemplates
           in case selectTemplate (rnd_select d * totalWeight) availableTemplates of
                None \<Rightarrow> (st, [])
              | Some t \<Rightarrow> if rnd_gate d > 1 / 10 then (st, []) else spawnMonster st t mid d)"

text \<open>The census loop of \<open>checkSpawning\<close>: \<open>monsterCountPerMap\<close> as an association list.\<close>

definition getOr0 :: "('k \<times> nat) list \<Rightarrow> 'k \<Rightarrow> nat" where
  "getOr0 c k = (case map_of c k of None \<Rightarrow> 0 | Some n \<Rightarrow> n)"

definition countStep :: "(int \<times> nat) list \<Rightarrow> monster \<Rightarrow> (int \<times> nat) list" where
  "countStep c m =
     (if state m \<noteq> Dead
      then AList.update (mapId (position m)) (getOr0 c (mapId (position m)) + 1) c
      else c)"

definition monsterCountPerMap :: "(string \<times> monster) list \<Rightarrow> (int \<times> nat) list" where
  "monsterCountPerMap reg = foldl countStep [] (map snd reg)"

text \<open>The loop \<open>for (mapId = 1; mapId <= 3; mapId++)\<close>, over the list of its indices.\<close>

fun spawnLoop ::
  "(int \<times> nat) list \<Rightarrow> (int \<Rightarrow> spawnDraws) \<Rightarrow> int list \<Rightarrow> service \<Rightarrow> service \<times> broadcast list" where
  "spawnLoop c ds [] st = (st, [])"
| "spawnLoop c ds (mid # mids) st =
     (let currentCount = getOr0 c mid;
          maxMonstersPerMap = 20;
          (st1, evs1) = (if currentCount < maxMonstersPerMap
                         then trySpawnMonster st mid (ds mid) else (st, []));
          (st2, evs2) = spawnLoop c ds mids st1
      in (st2, evs1 @ evs2))"

definition checkSpawning ::
  "service \<Rightarrow> int \<Rightarrow> (int \<Rightarrow> spawnDraws) \<Rightarrow> service \<times> broadcast list" where
  "checkSpawning st now ds =
     (let timeSinceLastCheck = now - lastSpawnCheck st
      in if timeSinceLastCheck < 5000 then (st, [])
         else spawnLoop (monsterCountPerMap (activeMonsters st)) ds [1, 2, 3]
                (st\<lparr>lastSpawnCheck := now\<rparr>))"

section \<open>Queries\<close>

definition getActiveMonsters :: "service \<Rightarrow> int option \<Rightarrow> monster list" where
  "getActiveMonsters st mid =
     (let monsters = map snd (activeMonsters st)
      in case mid of
           Some i \<Rightarrow> filter (\<lambda>m. mapId (position m) = i \<and> state m \<noteq> Dead) monsters
         | None \<Rightarrow> filter (\<lambda>m. state m \<noteq> Dead) monsters)"

record stats =
  totalMonsters :: nat
  monstersPerMap :: "(int \<times> nat) list"
  monstersPerType :: "(monster_kind \<times> nat) list"

definition statsStep :: "stats \<Rightarrow> monster \<Rightarrow> stats" where
  "statsStep s m =
     (if state m \<noteq> Dead
      then \<lparr>totalMonsters = totalMonsters s + 1,
            monstersPerMap =
              AList.update (mapId (position m))
                (getOr0 (monstersPerMap s) (mapId (position m)) + 1) (monstersPerMap s),
            monstersPerType =
              AList.update (kind m) (getOr0 (monstersPerType s) (kind m) + 1)
                (monstersPerType s)\<rparr>
      else s)"

definition getStats :: "service \<Rightarrow> stats" where
  "getStats st =
     foldl statsStep \<lparr>totalMonsters = 0, monstersPerMap = [], monstersPerType = []\<rparr>
       (map snd (activeMonsters st))"

text \<open>The number of non-dead monsters of the registry on one map.\<close>

definition census :: "service \<Rightarrow> int \<Rightarrow> nat" where
  "census st mid = length (getActiveMonsters st (Some mid))"

section \<open>Chat fan-out of the session registry\<close>

text \<open>
  The fields of an inbound \<open>data\<close> object have type \<open>any\<close>; the forms that the checks of
  \<open>handleChat\<close> tell apart are kept. A connection is a handle, and \<open>opn w\<close> says that its
  \<open>readyState\<close> is \<open>OPEN\<close>. Of \<open>Character\<close>, the fields that the fan-out reads are kept.
\<close>

datatype jsval = JUndefined | JNull | JBool bool | JNum int | JStr string

record character =
  c_id :: int
  c_name :: string
  map_id :: int

record playerSession =
  ws :: nat
  userId :: int
  character :: "character option"
  lastActivity :: int

record chatInput =
  in_message :: jsval
  in_channel :: jsval

record chatData =
  channel :: jsval
  characterName :: string
  chat_message :: string
  timestamp :: int

type_synonym delivery = "nat \<times> chatData"

definition sendMessage :: "(nat \<Rightarrow> bool) \<Rightarrow> nat \<Rightarrow> chatData \<Rightarrow> delivery list" where
  "sendMessage opn w msg = (if opn w then [(w, msg)] else [])"

definition broadcast_all ::
  "(nat \<Rightarrow> bool) \<Rightarrow> (nat \<times> playerSession) list \<Rightarrow> chatData \<Rightarrow> delivery list" where
  "broadcast_all opn sessions msg =
     map (\<lambda>s. (ws s, msg)) (filter (\<lambda>s. opn (ws s)) (map snd sessions))"

definition broadcastToMap ::
  "(nat \<Rightarrow> bool) \<Rightarrow> (nat \<times> playerSession) list \<Rightarrow> int \<Rightarrow> chatData \<Rightarrow> nat option
     \<Rightarrow> delivery list" where
  "broadcastToMap opn sessions mid msg excludeWs =
     map (\<lambda>s. (ws s, msg))
       (filter (\<lambda>s. Some (ws s) \<noteq> excludeWs \<and>
                    (case character s of None \<Rightarrow> False | Some c \<Rightarrow> map_id c = mid) \<and>
                    opn (ws s))
          (map snd sessions))"

definition handleChat ::
  "(nat \<Rightarrow> bool) \<Rightarrow> (nat \<times> playerSession) list \<Rightarrow> nat \<Rightarrow> chatInput \<Rightarrow> int \<Rightarrow> delivery list" where
  "handleChat opn sessions w inp now =
     (case map_of sessions w of
        None \<Rightarrow> []
      | Some session \<Rightarrow>
          (case character session of
             None \<Rightarrow> []
           | Some c \<Rightarrow>
               let chan = (if in_channel inp = JUndefined then JStr ''global''
                           else in_channel inp)
               in (case in_message inp of
                     JStr message \<Rightarrow>
                       if message = [] \<or> length message > 500 then []
                       else
                         let chatData = \<lparr>channel = chan, characterName = c_name c,
                                          chat_message = message, timestamp = now\<rparr>
                         in if chan = JStr ''global'' then broadcast_all opn sessions chatData
                            else if chan = JStr ''map''
                            then broadcastToMap opn sessions (map_id c) chatData None
                            else sendMessage opn w chatData
                   | _ \<Rightarrow> [])))"

definition getMonsterById :: "service \<Rightarrow> string \<Rightarrow> monster option" where
  "getMonsterById st monsterId = map_of (activeMonsters st) monsterId"

text \<open>The literal \<open>{ killed: false, experience: 0, gold: 0 }\<close>.\<close>

definition noReward :: reward where
  "noReward = \<lparr>killed = False, r_experience = 0, r_gold = 0\<rparr>"

section \<open>Concrete registries\<close>

text \<open>A level-1 goblin as \<open>spawnMonster\<close> builds it, alone in the registry.\<close>

definition goblin0 :: monster where
  "goblin0 =
     \<lparr>monster_id = ''m1'', name = ''Goblin Warrior'', kind = Goblin, level = 1,
      hp = 50, maxHp = 50, mp = 50, maxMp = 50, attack = 15, defense = 5,
      experience = 25, goldDrop = 5,
      position = \<lparr>pos_x = 10, pos_y = 20, mapId = 1\<rparr>,
      state = Idle, target = None, lastAction = 0, respawnTime = None,
      aggroRange = 50, patrolRange = 30, originalPosition = (10, 20)\<rparr>"

definition svc0 :: service where
  "svc0 = \<lparr>activeMonsters = [(''m1'', goblin0)], lastSpawnCheck = 0\<rparr>"

text \<open>The same goblin already hurt, with 10 hp left.\<close>

definition svc1 :: service where
  "svc1 = \<lparr>activeMonsters = [(''m1'', goblin0\<lparr>hp := 10\<rparr>)], lastSpawnCheck = 0\<rparr>"

text \<open>The goblin killed at time 1000, away from its anchor.\<close>

definition deadGoblin :: monster where
  "deadGoblin = goblin0\<lparr>hp := 0, state := Dead, respawnTime := Some 31000,
                        position := \<lparr>pos_x = 14, pos_y = 25, mapId = 1\<rparr>\<rparr>"

definition svc2 :: service where
  "svc2 = \<lparr>activeMonsters = [(''m1'', deadGoblin)], lastSpawnCheck = 0\<rparr>"

text \<open>Readings for one tick: the clock, and draws that trigger no random transition.\<close>

definition draws0 :: "int \<Rightarrow> draws" where
  "draws0 t = \<lparr>clk = t, rnd_patrol = 1 / 2, rnd_angle = 1 / 2, rnd_idle = 1 / 2,
               rnd_aggro = 1 / 2, rnd_player = 500, rnd_damage = 0, rnd_disengage = 1 / 2\<rparr>"

text \<open>Readings for one spawn attempt that passes the 10% gate.\<close>

definition spawnDraws0 :: spawnDraws where
  "spawnDraws0 = \<lparr>new_id = ''m9'', spawn_clk = 6000, rnd_select = 0, rnd_gate = 1 / 20,
                   rnd_x = 1 / 2, rnd_y = 1 / 4, rnd_level = 1 / 2\<rparr>"

text \<open>
  \<open>startGameLoop\<close> runs the tick every 500 ms. For one monster: \<open>n\<close> successive ticks
  after time \<open>t\<close>, the tick at time \<open>x\<close> reading \<open>env x\<close>.
\<close>

fun ticks :: "nat \<Rightarrow> int \<Rightarrow> (int \<Rightarrow> draws) \<Rightarrow> monster \<Rightarrow> monster \<times> broadcast list" where
  "ticks 0 t env m = (m, [])"
| "ticks (Suc n) t env m =
     (let (m1, evs1) = updateMonster (t + 500) (env (t + 500)) m;
          (m2, evs2) = ticks n (t + 500) env m1
      in (m2, evs1 @ evs2))"

text \<open>The goblin as a hit by player 7 for 20 at time 0 leaves it: chasing its attacker.\<close>

definition chaser :: monster where
  "chaser = goblin0\<lparr>hp := 35, target := Some ''7'', state := Chasing\<rparr>"

text \<open>
  Four sessions: connections 1 and 2 with characters on map 1, connection 3 with a
  character on map 2, connection 4 authenticated without a character. Connection 2 is
  closed, the others are open.
\<close>

definition sessions0 :: "(nat \<times> playerSession) list" where
  "sessions0 =
     [(1, \<lparr>ws = 1, userId = 11,
           character = Some \<lparr>c_id = 101, c_name = ''Ann'', map_id = 1\<rparr>, lastActivity = 0\<rparr>),
      (2, \<lparr>ws = 2, userId = 12,
           character = Some \<lparr>c_id = 102, c_name = ''Bob'', map_id = 1\<rparr>, lastActivity = 0\<rparr>),
      (3, \<lparr>ws = 3, userId = 13,
           character = Some \<lparr>c_id = 103, c_name = ''Cyd'', map_id = 2\<rparr>, lastActivity = 0\<rparr>),
      (4, \<lparr>ws = 4, userId = 14, character = None, lastActivity = 0\<rparr>)]"

definition open0 :: "nat \<Rightarrow> bool" where
  "open0 w = (w \<noteq> 2)"

text \<open>The connections that a list of deliveries reaches, in order.\<close>

definition recipients :: "delivery list \<Rightarrow> nat list" where
  "recipients ds = map fst ds"

text \<open>
  What the check of \<open>handleChat\<close> on the message lets through: a non-empty string of at
  most 500 characters.
\<close>

definition acceptedMessage :: "jsval \<Rightarrow> bool" where
  "acceptedMessage v = (case v of JStr s \<Rightarrow> s \<noteq> [] \<and> length s \<le> 500 | _ \<Rightarrow> False)"

text \<open>A registry with a live goblin on map 1, a dead one on map 1 and a live wolf on map 2.\<close>

definition svc3 :: service where
  "svc3 =
     \<lparr>activeMonsters =
        [(''m1'', goblin0),
         (''m2'', deadGoblin\<lparr>monster_id := ''m2''\<rparr>),
         (''m3'', goblin0\<lparr>monster_id := ''m3'', kind := Wolf,
                          position := \<lparr>pos_x = 5, pos_y = 5, mapId = 2\<rparr>\<rparr>)],
      lastSpawnCheck = 0\<rparr>"

text \<open>Readings for a spawn check in which every attempt passes the gate, one id per map.\<close>

definition spawnDrawsFor :: "int \<Rightarrow> spawnDraws" where
  "spawnDrawsFor mid =
     spawnDraws0\<lparr>new_id := (if mid = 1 then ''a'' else if mid = 2 then ''b'' else ''c'')\<rparr>"

section \<open>The calls that change the registry\<close>

text \<open>
  The registry is private to the service. It starts empty in the constructor and is
  written by the game loop (\<open>updateMonsters\<close>, then \<open>checkSpawning\<close>, each with its own
  reading of the clock), by \<open>damageMonster\<close> and by \<open>stop\<close>.
\<close>

datatype call =
    Tick int "string \<Rightarrow> draws" int "int \<Rightarrow> spawnDraws"
  | Attack string int int int
  | Stop

fun step :: "service \<Rightarrow> call \<Rightarrow> service" where
  "step st (Tick now env now' ds) = fst (checkSpawning (fst (updateMonsters st now env)) now' ds)"
| "step st (Attack monsterId damage attackerId now) =
     fst (snd (damageMonster st monsterId damage attackerId now))"
| "step st Stop = st\<lparr>activeMonsters := []\<rparr>"







section \<open>Damage and death\<close>

lemma map_of_update_same: "map_of (AList.update k v al) k = Some v"
  by (simp add: update_conv')

lemma damageMonster_survive:
  assumes "map_of (activeMonsters st) i = Some m" and "state m \<noteq> Dead"
    and "max 1 (d - defense m) = k" and "k < hp m"
  shows "damageMonster st i d a now =
           (noReward,
            st\<lparr>activeMonsters :=
                 AList.update i (m\<lparr>hp := hp m - k,
                                    target := Some (toString a), state := Chasing\<rparr>)
                   (activeMonsters st)\<rparr>,
            [(mapId (position m), Monster_damaged (monster_id m) k (hp m - k) (maxHp m))])"
proof -
  have "max 0 (hp m - k) = hp m - k" and "0 < hp m - k" and "\<not> hp m - k \<le> 0"
    using assms(4) by simp_all
  with assms(1,2,3) show ?thesis
    by (simp add: damageMonster_def Let_def noReward_def)
qed

lemma damageMonster_lethal:
  assumes "map_of (activeMonsters st) i = Some m" and "state m \<noteq> Dead"
    and "max 1 (d - defense m) = k" and "hp m \<le> k"
  shows "damageMonster st i d a now =
           (\<lparr>killed = True, r_experience = experience m, r_gold = goldDrop m\<rparr>,
            st\<lparr>activeMonsters :=
                 AList.update i (m\<lparr>hp := 0, state := Dead, target := None,
                                    respawnTime := Some (now + 30000)\<rparr>)
                   (activeMonsters st)\<rparr>,
            [(mapId (position m), Monster_damaged (monster_id m) k 0 (maxHp m)),
             (mapId (position m),
              Monster_died (monster_id m) a (experience m) (goldDrop m) (position m))])"
proof -
  have "max 0 (hp m - k) = 0"
    using assms(4) by simp
  with assms(1,2,3) show ?thesis
    by (simp add: damageMonster_def killMonster_def Let_def)
qed

text \<open>
  Claim C1: for a monster present in the registry and not dead, with hp \<open>h\<close> and defense
  \<open>f\<close>, and a damage amount \<open>d \<ge> 1\<close>, \<open>damageMonster\<close> sets the hp to
  \<open>max 0 (h - max 1 (d - f))\<close> and returns \<open>killed = true\<close> exactly when that new hp is 0.
\<close>

theorem damageMonster_hp:
  assumes "getMonsterById st i = Some m" and "state m \<noteq> Dead" and "1 \<le> d"
  shows "map_option hp (getMonsterById (fst (snd (damageMonster st i d a now))) i)
           = Some (max 0 (hp m - max 1 (d - defense m)))
         \<and> (killed (fst (damageMonster st i d a now))
              \<longleftrightarrow> max 0 (hp m - max 1 (d - defense m)) = 0)"
proof -
  obtain k where k: "max 1 (d - defense m) = k" by simp
  from assms have look: "map_of (activeMonsters st) i = Some m"
    by (simp add: getMonsterById_def)
  show ?thesis
  proof (cases "k < hp m")
    case True
    from damageMonster_survive [OF look assms(2) k True] True show ?thesis
      by (simp add: k getMonsterById_def map_of_update_same noReward_def)
  next
    case False
    then have le: "hp m \<le> k" by simp
    from damageMonster_lethal [OF look assms(2) k le] le show ?thesis
      by (simp add: k getMonsterById_def map_of_update_same)
  qed
qed

theorem damageMonster_hp_witness:
  "map_option hp (getMonsterById (fst (snd (damageMonster svc0 ''m1'' 20 7 1000))) ''m1'')
     = Some 35
   \<and> \<not> killed (fst (damageMonster svc0 ''m1'' 20 7 1000))"
  using damageMonster_hp [of svc0 "''m1''" goblin0 20 7 1000]
  by (simp add: svc0_def goblin0_def getMonsterById_def)

text \<open>
  Claim C2: when \<open>damageMonster\<close> brings a live monster's hp to exactly 0, the call returns
  \<open>killed = true\<close> with the monster's own experience and goldDrop, and the monster is
  left dead, without target, with its respawn time 30000 ms after the clock reading of the
  kill.
\<close>

theorem damageMonster_kill:
  assumes "getMonsterById st i = Some m" and "state m \<noteq> Dead"
    and "max 0 (hp m - max 1 (d - defense m)) = 0"
  shows "fst (damageMonster st i d a now)
           = \<lparr>killed = True, r_experience = experience m, r_gold = goldDrop m\<rparr>
         \<and> getMonsterById (fst (snd (damageMonster st i d a now))) i
           = Some (m\<lparr>hp := 0, state := Dead, target := None,
                     respawnTime := Some (now + 30000)\<rparr>)"
proof -
  obtain k where k: "max 1 (d - defense m) = k" by simp
  from assms(1) have look: "map_of (activeMonsters st) i = Some m"
    by (simp add: getMonsterById_def)
  from assms(3) have le: "hp m \<le> k" unfolding k by simp
  from damageMonster_lethal [OF look assms(2) k le] show ?thesis
    by (simp add: getMonsterById_def map_of_update_same)
qed

theorem damageMonster_kill_witness:
  "fst (damageMonster svc1 ''m1'' 100 7 1000)
     = \<lparr>killed = True, r_experience = 25, r_gold = 5\<rparr>
   \<and> map_option (\<lambda>m. (hp m, state m, target m, respawnTime m))
       (getMonsterById (fst (snd (damageMonster svc1 ''m1'' 100 7 1000))) ''m1'')
     = Some (0, Dead, None, Some 31000)"
  using damageMonster_kill [of svc1 "''m1''" "goblin0\<lparr>hp := 10\<rparr>" 100 7 1000]
  by (simp add: svc1_def goblin0_def getMonsterById_def)

lemma damageMonster_absent:
  "map_of (activeMonsters st) i = None \<Longrightarrow> damageMonster st i d a now = (noReward, st, [])"
  by (simp add: damageMonster_def noReward_def)

lemma damageMonster_dead:
  "map_of (activeMonsters st) i = Some m \<Longrightarrow> state m = Dead
     \<Longrightarrow> damageMonster st i d a now = (noReward, st, [])"
  by (simp add: damageMonster_def noReward_def)

lemma damageMonster_killed_dead:
  assumes "killed (fst (damageMonster st i d a now))"
  shows "\<exists>m'. map_of (activeMonsters (fst (snd (damageMonster st i d a now)))) i = Some m'
              \<and> state m' = Dead"
proof (cases "map_of (activeMonsters st) i")
  case None
  with assms show ?thesis by (simp add: damageMonster_absent noReward_def)
next
  case (Some m)
  obtain k where k: "max 1 (d - defense m) = k" by simp
  show ?thesis
  proof (cases "state m = Dead")
    case True
    with Some assms show ?thesis by (simp add: damageMonster_dead noReward_def)
  next
    case False
    show ?thesis
    proof (cases "k < hp m")
      case True
      from damageMonster_survive [OF Some False k True] assms show ?thesis
        by (simp add: noReward_def)
    next
      case nlt: False
      then have le: "hp m \<le> k" by simp
      from damageMonster_lethal [OF Some False k le] show ?thesis
        by (simp add: map_of_update_same)
    qed
  qed
qed

text \<open>
  Claim C3: for an id that is absent from the registry or whose monster is dead,
  \<open>damageMonster\<close> returns the zero reward, leaves the service unchanged and broadcasts
  nothing; so does any second call on the service left by a call that killed the monster.
\<close>

theorem damageMonster_noop:
  "(getMonsterById st i = None \<or> map_option state (getMonsterById st i) = Some Dead
      \<longrightarrow> damageMonster st i d a now = (noReward, st, []))
   \<and> (killed (fst (damageMonster st i d a now))
      \<longrightarrow> damageMonster (fst (snd (damageMonster st i d a now))) i d' a' now'
            = (noReward, fst (snd (damageMonster st i d a now)), []))"
proof (intro conjI impI)
  assume "getMonsterById st i = None \<or> map_option state (getMonsterById st i) = Some Dead"
  then show "damageMonster st i d a now = (noReward, st, [])"
    unfolding getMonsterById_def
    by (cases "map_of (activeMonsters st) i")
       (simp_all add: damageMonster_absent damageMonster_dead)
next
  assume "killed (fst (damageMonster st i d a now))"
  then obtain m' where
    "map_of (activeMonsters (fst (snd (damageMonster st i d a now)))) i = Some m'"
    "state m' = Dead"
    using damageMonster_killed_dead by blast
  then show "damageMonster (fst (snd (damageMonster st i d a now))) i d' a' now'
               = (noReward, fst (snd (damageMonster st i d a now)), [])"
    by (rule damageMonster_dead)
qed

theorem damageMonster_noop_witness:
  "damageMonster svc0 ''zz'' 20 7 1000 = (noReward, svc0, [])
   \<and> killed (fst (damageMonster svc1 ''m1'' 100 7 1000))
   \<and> fst (damageMonster (fst (snd (damageMonster svc1 ''m1'' 100 7 1000))) ''m1'' 100 7 1000)
       = \<lparr>killed = False, r_experience = 0, r_gold = 0\<rparr>"
proof -
  have k: "killed (fst (damageMonster svc1 ''m1'' 100 7 1000))"
    by (simp add: damageMonster_def killMonster_def svc1_def goblin0_def Let_def)
  have a: "getMonsterById svc0 ''zz'' = None"
    by (simp add: getMonsterById_def svc0_def)
  from damageMonster_noop [of svc0 "''zz''" 20 7 1000 20 7 1000] a
  have "damageMonster svc0 ''zz'' 20 7 1000 = (noReward, svc0, [])" by simp
  moreover from damageMonster_noop [of svc1 "''m1''" 100 7 1000 100 7 1000] k
  have "fst (damageMonster (fst (snd (damageMonster svc1 ''m1'' 100 7 1000))) ''m1'' 100 7 1000)
       = \<lparr>killed = False, r_experience = 0, r_gold = 0\<rparr>"
    by (simp add: noReward_def)
  ultimately show ?thesis using k by simp
qed

section \<open>Respawn\<close>

lemma map_fst_update:
  "map_of al k = Some v \<Longrightarrow> map fst (AList.update k v' al) = map fst al"
  by (induction al) auto

text \<open>
  Claim C4: \<open>respawnMonster\<close> replaces the monster under its id by its reset, and the
  keys of the registry stay as they are; the tick performs this reset on a dead monster
  once the clock is past its respawn time. After the reset hp is maxHp, mp is maxMp, the
  coordinates are those of originalPosition, target and respawn time are unset and the
  state is idle; id, maxHp, maxMp, originalPosition and map are those of before.
\<close>

theorem respawn_restores:
  "(getMonsterById st i = Some m \<longrightarrow>
      getMonsterById (fst (respawnMonster st i now)) i = Some (respawnReset m now)
      \<and> map fst (activeMonsters (fst (respawnMonster st i now))) = map fst (activeMonsters st))
   \<and> (state m = Dead \<and> respawnTime m = Some t \<and> t < now' \<longrightarrow>
        fst (updateMonster now' e m) = respawnReset m (clk e))
   \<and> hp (respawnReset m now) = maxHp (respawnReset m now)
   \<and> mp (respawnReset m now) = maxMp (respawnReset m now)
   \<and> pos_x (position (respawnReset m now)) = fst (originalPosition (respawnReset m now))
   \<and> pos_y (position (respawnReset m now)) = snd (originalPosition (respawnReset m now))
   \<and> target (respawnReset m now) = None
   \<and> respawnTime (respawnReset m now) = None
   \<and> state (respawnReset m now) = Idle
   \<and> monster_id (respawnReset m now) = monster_id m
   \<and> maxHp (respawnReset m now) = maxHp m
   \<and> maxMp (respawnReset m now) = maxMp m
   \<and> originalPosition (respawnReset m now) = originalPosition m
   \<and> mapId (position (respawnReset m now)) = mapId (position m)"
proof -
  have a: "getMonsterById st i = Some m \<longrightarrow>
      getMonsterById (fst (respawnMonster st i now)) i = Some (respawnReset m now)
      \<and> map fst (activeMonsters (fst (respawnMonster st i now))) = map fst (activeMonsters st)"
    by (simp add: getMonsterById_def respawnMonster_def Let_def map_of_update_same map_fst_update)
  have b: "state m = Dead \<and> respawnTime m = Some t \<and> t < now' \<longrightarrow>
        fst (updateMonster now' e m) = respawnReset m (clk e)"
    by (simp add: updateMonster_def Let_def)
  show ?thesis using a b by (simp add: respawnReset_def)
qed

theorem respawn_restores_witness:
  "map_option (\<lambda>m. (hp m, mp m, pos_x (position m), pos_y (position m), target m,
                     respawnTime m, state m, monster_id m))
     (getMonsterById (fst (respawnMonster svc2 ''m1'' 31500)) ''m1'')
     = Some (50, 50, 10, 20, None, None, Idle, ''m1'')
   \<and> fst (updateMonster 31500 (draws0 31500) deadGoblin) = respawnReset deadGoblin 31500"
  using respawn_restores [of svc2 "''m1''" deadGoblin 31500 31000 31500 "draws0 31500"]
  by (simp add: svc2_def deadGoblin_def goblin0_def getMonsterById_def draws0_def respawnReset_def)

section \<open>Broadcasts of the mutating calls\<close>

lemma spawnMonster_stored:
  "\<exists>m. getMonsterById (fst (spawnMonster st t mid d)) (new_id d) = Some m
       \<and> snd (spawnMonster st t mid d) = [(mid, Monster_spawn (getMonsterPublicData m))]
       \<and> monster_id m = new_id d \<and> mapId (position m) = mid \<and> state m = Idle"
  by (simp add: spawnMonster_def Let_def getMonsterById_def map_of_update_same)

text \<open>
  Claim C5 as stated fails: the call of \<open>damageMonster\<close> that kills the goblin with 10 hp
  broadcasts two messages, \<open>monster_damaged\<close> and then \<open>monster_died\<close>.
\<close>

theorem one_event_counterexample:
  "snd (snd (damageMonster svc1 ''m1'' 100 7 1000))
     = [(1, Monster_damaged ''m1'' 95 0 50),
        (1, Monster_died ''m1'' 7 25 5 \<lparr>pos_x = 10, pos_y = 20, mapId = 1\<rparr>)]"
  by (simp add: damageMonster_def killMonster_def svc1_def goblin0_def Let_def)

text \<open>
  Claim C5, amended: a spawn broadcasts exactly one \<open>monster_spawn\<close> with the public data
  of the monster it stored; a respawn of a present monster broadcasts exactly one
  \<open>monster_spawn\<close> with the public data of the reset monster; \<open>damageMonster\<close> on a live
  monster that survives broadcasts exactly one \<open>monster_damaged\<close> with the new hp; on a
  live monster that it kills it broadcasts two messages, \<open>monster_damaged\<close> with hp 0 and
  then \<open>monster_died\<close>; on an absent or dead monster it broadcasts nothing.
\<close>

theorem mutation_events:
  "snd (spawnMonster st t mid sd)
     = (case getMonsterById (fst (spawnMonster st t mid sd)) (new_id sd) of
          None \<Rightarrow> []
        | Some m' \<Rightarrow> [(mid, Monster_spawn (getMonsterPublicData m'))])
   \<and> getMonsterById (fst (spawnMonster st t mid sd)) (new_id sd) \<noteq> None
   \<and> (getMonsterById st i = Some m \<longrightarrow>
        snd (respawnMonster st i now)
          = [(mapId (position m), Monster_spawn (getMonsterPublicData (respawnReset m now)))])
   \<and> (getMonsterById st i = Some m \<and> state m \<noteq> Dead \<and> max 1 (d - defense m) < hp m \<longrightarrow>
        snd (snd (damageMonster st i d a now))
          = [(mapId (position m),
              Monster_damaged (monster_id m) (max 1 (d - defense m))
                (hp m - max 1 (d - defense m)) (maxHp m))])
   \<and> (getMonsterById st i = Some m \<and> state m \<noteq> Dead \<and> hp m \<le> max 1 (d - defense m) \<longrightarrow>
        snd (snd (damageMonster st i d a now))
          = [(mapId (position m),
              Monster_damaged (monster_id m) (max 1 (d - defense m)) 0 (maxHp m)),
             (mapId (position m),
              Monster_died (monster_id m) a (experience m) (goldDrop m) (position m))])
   \<and> (getMonsterById st i = None \<or> map_option state (getMonsterById st i) = Some Dead \<longrightarrow>
        snd (snd (damageMonster st i d a now)) = [])"
proof -
  obtain m' where m': "getMonsterById (fst (spawnMonster st t mid sd)) (new_id sd) = Some m'"
    "snd (spawnMonster st t mid sd) = [(mid, Monster_spawn (getMonsterPublicData m'))]"
    using spawnMonster_stored by blast
  have sp: "snd (spawnMonster st t mid sd)
     = (case getMonsterById (fst (spawnMonster st t mid sd)) (new_id sd) of
          None \<Rightarrow> []
        | Some m' \<Rightarrow> [(mid, Monster_spawn (getMonsterPublicData m'))])
     \<and> getMonsterById (fst (spawnMonster st t mid sd)) (new_id sd) \<noteq> None"
    using m' by simp
  have rs: "getMonsterById st i = Some m \<longrightarrow>
        snd (respawnMonster st i now)
          = [(mapId (position m), Monster_spawn (getMonsterPublicData (respawnReset m now)))]"
    by (simp add: getMonsterById_def respawnMonster_def Let_def respawnReset_def)
  have sv: "getMonsterById st i = Some m \<and> state m \<noteq> Dead \<and> max 1 (d - defense m) < hp m \<longrightarrow>
        snd (snd (damageMonster st i d a now))
          = [(mapId (position m),
              Monster_damaged (monster_id m) (max 1 (d - defense m))
                (hp m - max 1 (d - defense m)) (maxHp m))]"
    using damageMonster_survive [of st i m d "max 1 (d - defense m)" a now]
    by (simp add: getMonsterById_def)
  have kl: "getMonsterById st i = Some m \<and> state m \<noteq> Dead \<and> hp m \<le> max 1 (d - defense m) \<longrightarrow>
        snd (snd (damageMonster st i d a now))
          = [(mapId (position m),
              Monster_damaged (monster_id m) (max 1 (d - defense m)) 0 (maxHp m)),
             (mapId (position m),
              Monster_died (monster_id m) a (experience m) (goldDrop m) (position m))]"
    using damageMonster_lethal [of st i m d "max 1 (d - defense m)" a now]
    by (simp add: getMonsterById_def)
  have no: "getMonsterById st i = None \<or> map_option state (getMonsterById st i) = Some Dead \<longrightarrow>
        snd (snd (damageMonster st i d a now)) = []"
    unfolding getMonsterById_def
    by (cases "map_of (activeMonsters st) i")
       (auto simp add: damageMonster_absent damageMonster_dead)
  from sp rs sv kl no show ?thesis by blast
qed

theorem mutation_events_witness:
  "snd (snd (damageMonster svc0 ''m1'' 20 7 1000)) = [(1, Monster_damaged ''m1'' 15 35 50)]
   \<and> length (snd (snd (damageMonster svc1 ''m1'' 100 7 1000))) = 2
   \<and> snd (snd (damageMonster svc2 ''m1'' 100 7 1000)) = []
   \<and> length (snd (respawnMonster svc2 ''m1'' 31500)) = 1
   \<and> length (snd (spawnMonster svc0 (hd templates) 1 spawnDraws0)) = 1"
proof -
  have a: "snd (snd (damageMonster svc0 ''m1'' 20 7 1000)) = [(1, Monster_damaged ''m1'' 15 35 50)]"
    using mutation_events [where st = svc0 and i = "''m1''" and m = goblin0 and d = 20
        and a = 7 and now = 1000 and t = "hd templates" and mid = 1 and sd = spawnDraws0]
    by (simp add: svc0_def goblin0_def getMonsterById_def)
  have b: "length (snd (snd (damageMonster svc1 ''m1'' 100 7 1000))) = 2"
    using mutation_events [where st = svc1 and i = "''m1''" and m = "goblin0\<lparr>hp := 10\<rparr>"
        and d = 100 and a = 7 and now = 1000 and t = "hd templates" and mid = 1
        and sd = spawnDraws0]
    by (simp add: svc1_def goblin0_def getMonsterById_def)
  have c: "snd (snd (damageMonster svc2 ''m1'' 100 7 1000)) = []"
    using mutation_events [where st = svc2 and i = "''m1''" and m = deadGoblin and d = 100
        and a = 7 and now = 1000 and t = "hd templates" and mid = 1 and sd = spawnDraws0]
    by (simp add: svc2_def deadGoblin_def goblin0_def getMonsterById_def)
  have d: "length (snd (respawnMonster svc2 ''m1'' 31500)) = 1"
    using mutation_events [where st = svc2 and i = "''m1''" and m = deadGoblin and d = 100
        and a = 7 and now = 31500 and t = "hd templates" and mid = 1 and sd = spawnDraws0]
    by (simp add: svc2_def deadGoblin_def goblin0_def getMonsterById_def)
  have e: "length (snd (spawnMonster svc0 (hd templates) 1 spawnDraws0)) = 1"
    using mutation_events [where st = svc0 and i = "''m1''" and m = goblin0 and d = 20
        and a = 7 and now = 1000 and t = "hd templates" and mid = 1 and sd = spawnDraws0]
    by (cases "getMonsterById (fst (spawnMonster svc0 (hd templates) 1 spawnDraws0)) (new_id spawnDraws0)")
       simp_all
  from a b c d e show ?thesis by simp
qed

section \<open>The chase timeout\<close>

lemma template_found:
  "\<exists>t. map_of monsterTemplates (kind m) = Some t \<and> 500 < attackSpeed t"
  by (cases "kind m") (simp_all add: monsterTemplates_def templates_def mkTemplate_def)

lemma tick_keeps_target:
  assumes "clk e = t0 + 500" and "target m = Some tg" and "tg \<noteq> []"
    and "state m = Chasing \<or> state m = Attacking" and "lastAction m = t0"
  shows "updateMonster (t0 + 500) e m = (m\<lparr>state := Attacking, lastAction := t0 + 500\<rparr>, [])"
proof -
  obtain t where t: "map_of monsterTemplates (kind m) = Some t" "500 < attackSpeed t"
    using template_found by blast
  from assms(4) show ?thesis
  proof
    assume "state m = Chasing"
    with assms(1,2,3,5) t show ?thesis
      by (simp add: updateMonster_def handleChaseState_def noTarget_def Let_def)
  next
    assume "state m = Attacking"
    with assms(1,2,3,5) t show ?thesis
      by (simp add: updateMonster_def handleAttackState_def noTarget_def Let_def)
  qed
qed

lemma ticks_keep_target:
  assumes "\<forall>x. clk (env x) = x" and "target m = Some tg" and "tg \<noteq> []"
    and "state m = Chasing \<or> state m = Attacking" and "lastAction m = t0"
  shows "ticks (Suc n) t0 env m
           = (m\<lparr>state := Attacking, lastAction := t0 + 500 * (1 + int n)\<rparr>, [])"
  using assms(2-5)
proof (induction n arbitrary: m t0)
  case 0
  with assms(1) show ?case
    by (simp add: tick_keeps_target)
next
  case (Suc n)
  have e: "clk (env (t0 + 500)) = t0 + 500" using assms(1) by simp
  have step: "updateMonster (t0 + 500) (env (t0 + 500)) m
                = (m\<lparr>state := Attacking, lastAction := t0 + 500\<rparr>, [])"
    using tick_keeps_target [OF e Suc.prems] .
  have rest: "ticks (Suc n) (t0 + 500) env (m\<lparr>state := Attacking, lastAction := t0 + 500\<rparr>)
        = (m\<lparr>state := Attacking, lastAction := t0 + 500\<rparr>
            \<lparr>state := Attacking, lastAction := t0 + 500 + 500 * (1 + int n)\<rparr>, [])"
    using Suc.prems by (intro Suc.IH) simp_all
  have "ticks (Suc (Suc n)) t0 env m
          = ticks (Suc n) (t0 + 500) env (m\<lparr>state := Attacking, lastAction := t0 + 500\<rparr>)"
    using step by (simp del: ticks.simps(2) add: ticks.simps(2) [of "Suc n"])
  with rest show ?case by (simp add: algebra_simps)
qed

lemma toString_7: "toString 7 = ''7''"
  by code_simp

lemma damaged_goblin_is_chaser:
  "getMonsterById (fst (snd (damageMonster svc0 ''m1'' 20 7 0))) ''m1'' = Some chaser"
  by (simp add: damageMonster_def svc0_def goblin0_def chaser_def Let_def getMonsterById_def
      toString_7)

text \<open>
  Claim C7, evaluated on the code: the goblin that starts chasing player 7 at time 0 is
  ticked every 500 ms with no attack. After 21 ticks, 10.5 seconds later, it still holds
  its target and is in the attacking state, having broadcast nothing: each tick
  overwrites \<open>lastAction\<close>, so the 10 second test of \<open>handleChaseState\<close> never succeeds
  and the cooldown of \<open>handleAttackState\<close> never elapses.
\<close>

theorem chase_target_kept:
  "ticks 21 0 draws0 chaser
     = (chaser\<lparr>state := Attacking, lastAction := 10500\<rparr>, [])"
proof -
  have "ticks (Suc 20) 0 draws0 chaser
          = (chaser\<lparr>state := Attacking, lastAction := 0 + 500 * (1 + int 20)\<rparr>, [])"
    by (rule ticks_keep_target [where tg = "''7''"])
       (simp_all add: draws0_def chaser_def goblin0_def)
  then show ?thesis by simp
qed

section \<open>Chat fan-out\<close>

lemma handleChat_accepted:
  assumes "map_of sessions w = Some s" and "character s = Some c"
    and "in_message inp = JStr msg" and "msg \<noteq> []" and "length msg \<le> 500"
  shows "handleChat opn sessions w inp now =
           (let chan = (if in_channel inp = JUndefined then JStr ''global'' else in_channel inp);
                chatData = \<lparr>channel = chan, characterName = c_name c,
                             chat_message = msg, timestamp = now\<rparr>
            in if chan = JStr ''global'' then broadcast_all opn sessions chatData
               else if chan = JStr ''map''
               then broadcastToMap opn sessions (map_id c) chatData None
               else sendMessage opn w chatData)"
  using assms by (simp add: handleChat_def Let_def)

lemma handleChat_rejected:
  assumes "map_of sessions w = Some s" and "character s = Some c"
    and "\<not> acceptedMessage (in_message inp)"
  shows "handleChat opn sessions w inp now = []"
  using assms
  by (cases "in_message inp") (auto simp: handleChat_def acceptedMessage_def Let_def)

lemma chat_fanout_accepted:
  assumes "map_of sessions w = Some s" and "character s = Some c"
    and "acceptedMessage (in_message inp)"
  shows "(in_channel inp = JStr ''map'' \<longrightarrow>
            recipients (handleChat opn sessions w inp now)
              = map ws (filter (\<lambda>s'. opn (ws s') \<and>
                                      map_option map_id (character s') = Some (map_id c))
                          (map snd sessions)))
         \<and> (in_channel inp = JStr ''global'' \<or> in_channel inp = JUndefined \<longrightarrow>
            recipients (handleChat opn sessions w inp now)
              = map ws (filter (\<lambda>s'. opn (ws s')) (map snd sessions))
            \<and> (opn (ws s) \<longrightarrow> ws s \<in> set (recipients (handleChat opn sessions w inp now))))
         \<and> (in_channel inp \<noteq> JStr ''map'' \<and> in_channel inp \<noteq> JStr ''global''
              \<and> in_channel inp \<noteq> JUndefined \<longrightarrow>
            recipients (handleChat opn sessions w inp now) = (if opn w then [w] else []))
         \<and> (\<forall>d \<in> set (handleChat opn sessions w inp now).
              chat_message (snd d) = (case in_message inp of JStr msg \<Rightarrow> msg | _ \<Rightarrow> [])
              \<and> characterName (snd d) = c_name c)"
proof -
  from assms(3) obtain msg where msg: "in_message inp = JStr msg" "msg \<noteq> []" "length msg \<le> 500"
    by (auto simp: acceptedMessage_def split: jsval.splits)
  note hc = handleChat_accepted [OF assms(1,2) msg, of opn now]
  have f: "filter (\<lambda>s'. Some (ws s') \<noteq> None \<and>
                    (case character s' of None \<Rightarrow> False | Some c' \<Rightarrow> map_id c' = map_id c) \<and>
                    opn (ws s')) xs
         = filter (\<lambda>s'. opn (ws s') \<and> map_option map_id (character s') = Some (map_id c)) xs"
    for xs
    by (rule filter_cong) (auto split: option.splits)
  have a: "in_channel inp = JStr ''map'' \<longrightarrow>
            recipients (handleChat opn sessions w inp now)
              = map ws (filter (\<lambda>s'. opn (ws s') \<and>
                                      map_option map_id (character s') = Some (map_id c))
                          (map snd sessions))"
  proof
    assume ch: "in_channel inp = JStr ''map''"
    have "recipients (handleChat opn sessions w inp now)
            = map ws (filter (\<lambda>s'. Some (ws s') \<noteq> None \<and>
                    (case character s' of None \<Rightarrow> False | Some c' \<Rightarrow> map_id c' = map_id c) \<and>
                    opn (ws s')) (map snd sessions))"
      unfolding hc by (simp add: ch Let_def recipients_def broadcastToMap_def comp_def)
    then show "recipients (handleChat opn sessions w inp now)
              = map ws (filter (\<lambda>s'. opn (ws s') \<and>
                                      map_option map_id (character s') = Some (map_id c))
                          (map snd sessions))"
      unfolding f .
  qed
  have sin: "s \<in> set (map snd sessions)"
    using assms(1) by (force dest: map_of_SomeD)
  have b: "in_channel inp = JStr ''global'' \<or> in_channel inp = JUndefined \<longrightarrow>
            recipients (handleChat opn sessions w inp now)
              = map ws (filter (\<lambda>s'. opn (ws s')) (map snd sessions))
            \<and> (opn (ws s) \<longrightarrow> ws s \<in> set (recipients (handleChat opn sessions w inp now)))"
  proof
    assume ch: "in_channel inp = JStr ''global'' \<or> in_channel inp = JUndefined"
    then have r: "recipients (handleChat opn sessions w inp now)
              = map ws (filter (\<lambda>s'. opn (ws s')) (map snd sessions))"
      unfolding hc by (auto simp add: Let_def recipients_def broadcast_all_def comp_def)
    have "opn (ws s) \<longrightarrow> ws s \<in> set (map ws (filter (\<lambda>s'. opn (ws s')) (map snd sessions)))"
      using sin by simp
    with r show "recipients (handleChat opn sessions w inp now)
              = map ws (filter (\<lambda>s'. opn (ws s')) (map snd sessions))
            \<and> (opn (ws s) \<longrightarrow> ws s \<in> set (recipients (handleChat opn sessions w inp now)))"
      by simp
  qed
  have c: "in_channel inp \<noteq> JStr ''map'' \<and> in_channel inp \<noteq> JStr ''global''
              \<and> in_channel inp \<noteq> JUndefined \<longrightarrow>
            recipients (handleChat opn sessions w inp now) = (if opn w then [w] else [])"
    by (simp add: hc Let_def recipients_def sendMessage_def)
  have d: "\<forall>d \<in> set (handleChat opn sessions w inp now).
              chat_message (snd d) = (case in_message inp of JStr msg \<Rightarrow> msg | _ \<Rightarrow> [])
              \<and> characterName (snd d) = c_name c"
    by (auto simp add: hc msg Let_def broadcast_all_def broadcastToMap_def sendMessage_def)
  from a b c d show ?thesis by blast
qed

text \<open>
  Claim C8 as stated fails: \<open>handleChat\<close> drops a message that is empty. Connection 3 is
  open and has a character, and connections 1 and 4 are open too, yet its empty message
  on channel \<open>global\<close> reaches nobody.
\<close>

theorem chat_empty_counterexample:
  "recipients (handleChat open0 sessions0 3 \<lparr>in_message = JStr [], in_channel = JStr ''global''\<rparr> 5)
     = []
   \<and> open0 1 \<and> open0 3 \<and> open0 4"
  by (simp add: handleChat_def sessions0_def open0_def recipients_def Let_def)

text \<open>
  Claim C8, amended: from a session with a selected character, a chat message that is a
  non-empty string of at most 500 characters is sent, on channel \<open>map\<close>, once to each
  session with an open connection whose character is on the sender's map and to no
  other; on channel \<open>global\<close> (also the default when the channel is missing) once to each
  session with an open connection, the sender's included; on any other channel to the
  sender's connection alone. A message that is empty, longer than 500 characters or not a
  string is sent to nobody.
\<close>

theorem chat_fanout:
  assumes "map_of sessions w = Some s" and "character s = Some c"
  shows "(acceptedMessage (in_message inp) \<longrightarrow>
           (in_channel inp = JStr ''map'' \<longrightarrow>
              recipients (handleChat opn sessions w inp now)
                = map ws (filter (\<lambda>s'. opn (ws s') \<and>
                                        map_option map_id (character s') = Some (map_id c))
                            (map snd sessions)))
           \<and> (in_channel inp = JStr ''global'' \<or> in_channel inp = JUndefined \<longrightarrow>
              recipients (handleChat opn sessions w inp now)
                = map ws (filter (\<lambda>s'. opn (ws s')) (map snd sessions))
              \<and> (opn (ws s) \<longrightarrow> ws s \<in> set (recipients (handleChat opn sessions w inp now))))
           \<and> (in_channel inp \<noteq> JStr ''map'' \<and> in_channel inp \<noteq> JStr ''global''
                \<and> in_channel inp \<noteq> JUndefined \<longrightarrow>
              recipients (handleChat opn sessions w inp now) = (if opn w then [w] else []))
           \<and> (\<forall>d \<in> set (handleChat opn sessions w inp now).
                chat_message (snd d) = (case in_message inp of JStr msg \<Rightarrow> msg | _ \<Rightarrow> [])
                \<and> characterName (snd d) = c_name c))
         \<and> (acceptedMessage (in_message inp)
              \<longleftrightarrow> (\<exists>msg. in_message inp = JStr msg \<and> msg \<noteq> [] \<and> length msg \<le> 500))
         \<and> (\<not> acceptedMessage (in_message inp) \<longrightarrow> handleChat opn sessions w inp now = [])"
proof -
  have acc: "acceptedMessage (in_message inp)
              \<longleftrightarrow> (\<exists>msg. in_message inp = JStr msg \<and> msg \<noteq> [] \<and> length msg \<le> 500)"
    by (cases "in_message inp") (simp_all add: acceptedMessage_def)
  from chat_fanout_accepted [OF assms, of inp opn now] handleChat_rejected [OF assms, of inp opn now]
    acc
  show ?thesis by blast
qed

theorem chat_fanout_witness:
  "recipients (handleChat open0 sessions0 1 \<lparr>in_message = JStr ''hi'', in_channel = JStr ''map''\<rparr> 5) = [1]
   \<and> recipients (handleChat open0 sessions0 3 \<lparr>in_message = JStr ''hi'', in_channel = JStr ''global''\<rparr> 5)
       = [1, 3, 4]
   \<and> recipients (handleChat open0 sessions0 3 \<lparr>in_message = JStr ''hi'', in_channel = JStr ''party''\<rparr> 5)
       = [3]
   \<and> handleChat open0 sessions0 1 \<lparr>in_message = JNum 7, in_channel = JStr ''map''\<rparr> 5 = []"
proof -
  have a: "recipients (handleChat open0 sessions0 1 \<lparr>in_message = JStr ''hi'', in_channel = JStr ''map''\<rparr> 5) = [1]"
    using chat_fanout [where sessions = sessions0 and w = 1 and opn = open0 and now = 5
        and s = "snd (sessions0 ! 0)" and c = "\<lparr>c_id = 101, c_name = ''Ann'', map_id = 1\<rparr>"
        and inp = "\<lparr>in_message = JStr ''hi'', in_channel = JStr ''map''\<rparr>"]
    by (simp add: sessions0_def open0_def acceptedMessage_def)
  have b: "recipients (handleChat open0 sessions0 3 \<lparr>in_message = JStr ''hi'', in_channel = JStr ''global''\<rparr> 5)
       = [1, 3, 4]"
    using chat_fanout [where sessions = sessions0 and w = 3 and opn = open0 and now = 5
        and s = "snd (sessions0 ! 2)" and c = "\<lparr>c_id = 103, c_name = ''Cyd'', map_id = 2\<rparr>"
        and inp = "\<lparr>in_message = JStr ''hi'', in_channel = JStr ''global''\<rparr>"]
    by (simp add: sessions0_def open0_def acceptedMessage_def)
  have c: "recipients (handleChat open0 sessions0 3 \<lparr>in_message = JStr ''hi'', in_channel = JStr ''party''\<rparr> 5)
       = [3]"
    using chat_fanout [where sessions = sessions0 and w = 3 and opn = open0 and now = 5
        and s = "snd (sessions0 ! 2)" and c = "\<lparr>c_id = 103, c_name = ''Cyd'', map_id = 2\<rparr>"
        and inp = "\<lparr>in_message = JStr ''hi'', in_channel = JStr ''party''\<rparr>"]
    by (simp add: sessions0_def open0_def acceptedMessage_def)
  have d: "handleChat open0 sessions0 1 \<lparr>in_message = JNum 7, in_channel = JStr ''map''\<rparr> 5 = []"
    using chat_fanout [where sessions = sessions0 and w = 1 and opn = open0 and now = 5
        and s = "snd (sessions0 ! 0)" and c = "\<lparr>c_id = 101, c_name = ''Ann'', map_id = 1\<rparr>"
        and inp = "\<lparr>in_message = JNum 7, in_channel = JStr ''map''\<rparr>"]
    by (simp add: sessions0_def acceptedMessage_def)
  from a b c d show ?thesis by simp
qed

section \<open>Statistics\<close>

lemma getOr0_update:
  "getOr0 (AList.update k v c) k' = (if k' = k then v else getOr0 c k')"
  by (simp add: getOr0_def update_conv')

lemma sum_update_incr:
  "sum_list (map snd (AList.update k (Suc (getOr0 c k)) c)) = Suc (sum_list (map snd c))"
  by (induction c) (auto simp: getOr0_def)

lemma foldl_statsStep_total:
  "totalMonsters (foldl statsStep s ms)
     = totalMonsters s + length (filter (\<lambda>m. state m \<noteq> Dead) ms)"
  by (induction ms arbitrary: s) (simp_all add: statsStep_def)

lemma foldl_statsStep_map_sum:
  "sum_list (map snd (monstersPerMap (foldl statsStep s ms)))
     = sum_list (map snd (monstersPerMap s)) + length (filter (\<lambda>m. state m \<noteq> Dead) ms)"
  by (induction ms arbitrary: s) (simp_all add: statsStep_def sum_update_incr)

lemma foldl_statsStep_type_sum:
  "sum_list (map snd (monstersPerType (foldl statsStep s ms)))
     = sum_list (map snd (monstersPerType s)) + length (filter (\<lambda>m. state m \<noteq> Dead) ms)"
  by (induction ms arbitrary: s) (simp_all add: statsStep_def sum_update_incr)

lemma foldl_statsStep_per_map:
  "getOr0 (monstersPerMap (foldl statsStep s ms)) i
     = getOr0 (monstersPerMap s) i
       + length (filter (\<lambda>m. mapId (position m) = i \<and> state m \<noteq> Dead) ms)"
  by (induction ms arbitrary: s) (simp_all add: statsStep_def getOr0_update)

lemma foldl_statsStep_per_type:
  "getOr0 (monstersPerType (foldl statsStep s ms)) k
     = getOr0 (monstersPerType s) k
       + length (filter (\<lambda>m. kind m = k \<and> state m \<noteq> Dead) ms)"
  by (induction ms arbitrary: s) (simp_all add: statsStep_def getOr0_update)

lemma foldl_statsStep_skip_dead:
  "foldl statsStep s (filter (\<lambda>m. state m \<noteq> Dead) ms) = foldl statsStep s ms"
  by (induction ms arbitrary: s) (simp_all add: statsStep_def)

text \<open>
  Claim C10: in every registry state, \<open>totalMonsters\<close> of \<open>getStats\<close> is the number of
  monsters that \<open>getActiveMonsters\<close> returns without a map filter, and is the sum of the
  counts of \<open>monstersPerMap\<close> and the sum of the counts of \<open>monstersPerType\<close>; the count of
  a map is the number of monsters that \<open>getActiveMonsters\<close> returns for that map; dead
  monsters count nowhere: the statistics are those of the registry without them.
\<close>

theorem stats_consistent:
  "totalMonsters (getStats st) = length (getActiveMonsters st None)
   \<and> sum_list (map snd (monstersPerMap (getStats st))) = totalMonsters (getStats st)
   \<and> sum_list (map snd (monstersPerType (getStats st))) = totalMonsters (getStats st)
   \<and> getOr0 (monstersPerMap (getStats st)) i = length (getActiveMonsters st (Some i))
   \<and> getOr0 (monstersPerType (getStats st)) k
       = length (filter (\<lambda>m. kind m = k) (getActiveMonsters st None))
   \<and> getStats (st\<lparr>activeMonsters := filter (\<lambda>(j, m). state m \<noteq> Dead) (activeMonsters st)\<rparr>)
       = getStats st"
proof -
  let ?s0 = "\<lparr>totalMonsters = 0, monstersPerMap = [], monstersPerType = []\<rparr>"
  let ?ms = "map snd (activeMonsters st)"
  have flt: "map snd (filter (\<lambda>(j, m). state m \<noteq> Dead) xs)
               = filter (\<lambda>m. state m \<noteq> Dead) (map snd xs)" for xs :: "(string \<times> monster) list"
    by (induction xs) auto
  have cj: "filter (\<lambda>m. kind m = k) (filter (\<lambda>m. state m \<noteq> Dead) xs)
              = filter (\<lambda>m. kind m = k \<and> state m \<noteq> Dead) xs" for xs
    by (induction xs) auto
  have z: "getOr0 [] j = 0" for j :: 'k
    by (simp add: getOr0_def)
  have t: "totalMonsters (getStats st) = length (getActiveMonsters st None)"
    unfolding getStats_def getActiveMonsters_def Let_def
    by (simp only: foldl_statsStep_total) simp
  have pm: "sum_list (map snd (monstersPerMap (getStats st))) = totalMonsters (getStats st)"
    unfolding getStats_def
    by (simp only: foldl_statsStep_total foldl_statsStep_map_sum) simp
  have pt: "sum_list (map snd (monstersPerType (getStats st))) = totalMonsters (getStats st)"
    unfolding getStats_def
    by (simp only: foldl_statsStep_total foldl_statsStep_type_sum) simp
  have m: "getOr0 (monstersPerMap (getStats st)) i = length (getActiveMonsters st (Some i))"
    unfolding getStats_def getActiveMonsters_def Let_def
    by (simp only: foldl_statsStep_per_map) (simp add: z)
  have ty: "getOr0 (monstersPerType (getStats st)) k
       = length (filter (\<lambda>m. kind m = k) (getActiveMonsters st None))"
    unfolding getStats_def getActiveMonsters_def Let_def
    by (simp only: foldl_statsStep_per_type option.case cj) (simp add: z)
  have dd: "getStats (st\<lparr>activeMonsters := filter (\<lambda>(j, m). state m \<noteq> Dead) (activeMonsters st)\<rparr>)
       = getStats st"
    by (simp add: getStats_def flt foldl_statsStep_skip_dead)
  from t pm pt m ty dd show ?thesis by blast
qed

theorem stats_consistent_witness:
  "totalMonsters (getStats svc3) = 2
   \<and> length (getActiveMonsters svc3 None) = 2
   \<and> getOr0 (monstersPerMap (getStats svc3)) 1 = 1
   \<and> length (getActiveMonsters svc3 (Some 1)) = 1"
proof -
  have "length (getActiveMonsters svc3 None) = 2"
    by (simp add: getActiveMonsters_def svc3_def goblin0_def deadGoblin_def)
  moreover have "length (getActiveMonsters svc3 (Some 1)) = 1"
    by (simp add: getActiveMonsters_def svc3_def goblin0_def deadGoblin_def)
  ultimately show ?thesis
    using stats_consistent [of svc3 1 Goblin] by simp
qed

section \<open>The spawn check and the per-map cap\<close>

lemma census_filter:
  "census st i
     = length (filter (\<lambda>m. mapId (position m) = i \<and> state m \<noteq> Dead)
                 (map snd (activeMonsters st)))"
  by (simp add: census_def getActiveMonsters_def)

lemma foldl_countStep:
  "getOr0 (foldl countStep c ms) i
     = getOr0 c i + length (filter (\<lambda>m. mapId (position m) = i \<and> state m \<noteq> Dead) ms)"
  by (induction ms arbitrary: c) (simp_all add: countStep_def getOr0_update)

lemma getOr0_Nil: "getOr0 [] k = 0"
  by (simp add: getOr0_def)

lemma monsterCountPerMap_census:
  "getOr0 (monsterCountPerMap (activeMonsters st)) i = census st i"
  unfolding monsterCountPerMap_def census_filter
  by (simp only: foldl_countStep getOr0_Nil)

lemma filter_update_le:
  "length (filter P (map snd (AList.update k v al)))
     \<le> length (filter P (map snd al)) + (if P v then 1 else 0)"
  by (induction al) auto

lemma spawnMonster_census:
  "census (fst (spawnMonster st t mid d)) i \<le> census st i + (if i = mid then 1 else 0)"
proof -
  obtain m where m: "fst (spawnMonster st t mid d)
      = st\<lparr>activeMonsters := AList.update (new_id d) m (activeMonsters st)\<rparr>"
    "mapId (position m) = mid"
    by (simp add: spawnMonster_def Let_def)
  have "census (fst (spawnMonster st t mid d)) i
          \<le> census st i
             + (if mapId (position m) = i \<and> state m \<noteq> Dead then 1 else 0)"
    unfolding m(1) census_filter
    using filter_update_le [of "\<lambda>m. mapId (position m) = i \<and> state m \<noteq> Dead"
        "new_id d" m "activeMonsters st"]
    by simp
  with m(2) show ?thesis by (auto split: if_splits)
qed

lemma trySpawnMonster_cases:
  "trySpawnMonster st mid d = (st, [])
   \<or> (\<exists>t. trySpawnMonster st mid d = spawnMonster st t mid d)"
  unfolding trySpawnMonster_def Let_def
  by (auto split: option.splits)

lemma spawnMonster_events:
  "\<exists>pd. snd (spawnMonster st t mid d) = [(mid, Monster_spawn pd)]"
  by (simp add: spawnMonster_def Let_def)

lemma trySpawnMonster_census:
  "census (fst (trySpawnMonster st mid d)) i \<le> census st i + (if i = mid then 1 else 0)"
  using trySpawnMonster_cases [of st mid d] spawnMonster_census [of st _ mid d i]
  by auto

lemma trySpawnMonster_events:
  "length (filter (\<lambda>ev. fst ev = i) (snd (trySpawnMonster st mid d)))
     \<le> (if i = mid then 1 else 0)"
proof -
  from trySpawnMonster_cases [of st mid d] show ?thesis
  proof
    assume "trySpawnMonster st mid d = (st, [])"
    then show ?thesis by simp
  next
    assume "\<exists>t. trySpawnMonster st mid d = spawnMonster st t mid d"
    then obtain t where t: "trySpawnMonster st mid d = spawnMonster st t mid d" ..
    obtain pd where "snd (spawnMonster st t mid d) = [(mid, Monster_spawn pd)]"
      using spawnMonster_events by blast
    with t show ?thesis by simp
  qed
qed

lemma spawnLoop_census:
  "distinct mids \<Longrightarrow>
   census (fst (spawnLoop c ds mids st)) i
     \<le> census st i + (if i \<in> set mids \<and> getOr0 c i < 20 then 1 else 0)"
proof (induction mids arbitrary: st)
  case Nil
  then show ?case by simp
next
  case (Cons mid mids)
  let ?st1 = "if getOr0 c mid < 20 then fst (trySpawnMonster st mid (ds mid)) else st"
  have unf: "fst (spawnLoop c ds (mid # mids) st) = fst (spawnLoop c ds mids ?st1)"
    by (simp add: Let_def split: prod.splits)
  have one: "census ?st1 i \<le> census st i + (if i = mid \<and> getOr0 c mid < 20 then 1 else 0)"
    using trySpawnMonster_census [of st mid "ds mid" i] by (auto split: if_splits)
  from Cons.prems have d: "distinct mids" and nin: "mid \<notin> set mids" by simp_all
  have rest: "census (fst (spawnLoop c ds mids ?st1)) i
          \<le> census ?st1 i + (if i \<in> set mids \<and> getOr0 c i < 20 then 1 else 0)"
    by (rule Cons.IH [OF d])
  from one rest nin show ?case
    unfolding unf by (auto split: if_splits)
qed

lemma spawnLoop_events:
  "distinct mids \<Longrightarrow>
   length (filter (\<lambda>ev. fst ev = i) (snd (spawnLoop c ds mids st)))
     \<le> (if i \<in> set mids \<and> getOr0 c i < 20 then 1 else 0)"
proof (induction mids arbitrary: st)
  case Nil
  then show ?case by simp
next
  case (Cons mid mids)
  let ?r1 = "if getOr0 c mid < 20 then trySpawnMonster st mid (ds mid) else (st, [])"
  have unf: "snd (spawnLoop c ds (mid # mids) st)
               = snd ?r1 @ snd (spawnLoop c ds mids (fst ?r1))"
    by (simp add: Let_def split: prod.splits)
  have one: "length (filter (\<lambda>ev. fst ev = i) (snd ?r1))
               \<le> (if i = mid \<and> getOr0 c mid < 20 then 1 else 0)"
    using trySpawnMonster_events [of i st mid "ds mid"] by (auto split: if_splits)
  from Cons.prems have d: "distinct mids" and nin: "mid \<notin> set mids" by simp_all
  have rest: "length (filter (\<lambda>ev. fst ev = i) (snd (spawnLoop c ds mids (fst ?r1))))
          \<le> (if i \<in> set mids \<and> getOr0 c i < 20 then 1 else 0)"
    by (rule Cons.IH [OF d])
  from one rest nin show ?case
    unfolding unf by (auto split: if_splits)
qed

lemma checkSpawning_skip:
  "now - lastSpawnCheck st < 5000 \<Longrightarrow> checkSpawning st now ds = (st, [])"
  by (simp add: checkSpawning_def)

lemma checkSpawning_run:
  "\<not> now - lastSpawnCheck st < 5000 \<Longrightarrow>
   checkSpawning st now ds
     = spawnLoop (monsterCountPerMap (activeMonsters st)) ds [1, 2, 3]
         (st\<lparr>lastSpawnCheck := now\<rparr>)"
  by (simp add: checkSpawning_def Let_def del: spawnLoop.simps)

text \<open>
  Claim C9: one execution of \<open>checkSpawning\<close> adds at most one monster to the non-dead
  census of a map, and only when that census at the start of the check is below 20; it
  broadcasts at most one spawn for a map, and none for a map whose census at the start
  is 20 or more. So when the census of every map is at most 20 before the check, it is at
  most 20 after it.
\<close>

theorem checkSpawning_cap:
  "census (fst (checkSpawning st now ds)) i
     \<le> census st i + (if census st i < 20 then 1 else 0)
   \<and> length (filter (\<lambda>ev. fst ev = i) (snd (checkSpawning st now ds)))
       \<le> (if census st i < 20 then 1 else 0)
   \<and> ((\<forall>j. census st j \<le> 20) \<longrightarrow> (\<forall>j. census (fst (checkSpawning st now ds)) j \<le> 20))"
proof -
  let ?c = "monsterCountPerMap (activeMonsters st)"
  let ?st = "st\<lparr>lastSpawnCheck := now\<rparr>"
  have same: "census ?st j = census st j" for j
    by (simp add: census_filter)
  have cnt: "getOr0 ?c j = census st j" for j
    by (rule monsterCountPerMap_census)
  have cen: "census (fst (checkSpawning st now ds)) j
               \<le> census st j + (if census st j < 20 then 1 else 0)" for j
  proof (cases "now - lastSpawnCheck st < 5000")
    case True
    then show ?thesis by (simp add: checkSpawning_skip)
  next
    case False
    have "census (fst (spawnLoop ?c ds [1, 2, 3] ?st)) j
            \<le> census ?st j + (if j \<in> set [1, 2, 3] \<and> getOr0 ?c j < 20 then 1 else 0)"
      by (rule spawnLoop_census) simp
    then have "census (fst (checkSpawning st now ds)) j
            \<le> census st j + (if j \<in> set [1, 2, 3] \<and> census st j < 20 then 1 else 0)"
      unfolding checkSpawning_run [OF False] cnt same .
    then show ?thesis by (auto split: if_splits)
  qed
  have evs: "length (filter (\<lambda>ev. fst ev = i) (snd (checkSpawning st now ds)))
       \<le> (if census st i < 20 then 1 else 0)"
  proof (cases "now - lastSpawnCheck st < 5000")
    case True
    then show ?thesis by (simp add: checkSpawning_skip)
  next
    case False
    have "length (filter (\<lambda>ev. fst ev = i) (snd (spawnLoop ?c ds [1, 2, 3] ?st)))
            \<le> (if i \<in> set [1, 2, 3] \<and> getOr0 ?c i < 20 then 1 else 0)"
      by (rule spawnLoop_events) simp
    then have "length (filter (\<lambda>ev. fst ev = i) (snd (checkSpawning st now ds)))
            \<le> (if i \<in> set [1, 2, 3] \<and> census st i < 20 then 1 else 0)"
      unfolding checkSpawning_run [OF False] cnt .
    then show ?thesis by (auto split: if_splits)
  qed
  have cap: "(\<forall>j. census st j \<le> 20) \<longrightarrow> (\<forall>j. census (fst (checkSpawning st now ds)) j \<le> 20)"
  proof (intro impI allI)
    fix j
    assume a: "\<forall>j. census st j \<le> 20"
    then have "census st j \<le> 20" by simp
    with cen [of j] show "census (fst (checkSpawning st now ds)) j \<le> 20"
      by (simp split: if_splits)
  qed
  from cen [of i] evs cap show ?thesis by blast
qed

lemma census_svc0: "census svc0 j = (if j = 1 then 1 else 0)"
  by (simp add: census_filter svc0_def goblin0_def)

lemma checkSpawning_svc0:
  "map (\<lambda>(k, m). (k, mapId (position m), state m, attack m))
     (activeMonsters (fst (checkSpawning svc0 6000 spawnDrawsFor)))
     = [(''m1'', 1, Idle, 15), (''a'', 1, Idle, 18), (''b'', 2, Idle, 18), (''c'', 3, Idle, 48)]"
  by (simp add: checkSpawning_def svc0_def goblin0_def spawnDrawsFor_def spawnDraws0_def
      monsterCountPerMap_def countStep_def getOr0_def trySpawnMonster_def spawnMonster_def
      monsterTemplates_def templates_def mkTemplate_def generateRandomPosition_def
      mapBoundaries_def getMonsterPublicData_def Let_def)

theorem checkSpawning_cap_witness:
  "(\<forall>j. census svc0 j \<le> 20)
   \<and> (\<forall>j. census (fst (checkSpawning svc0 6000 spawnDrawsFor)) j \<le> 20)
   \<and> census (fst (checkSpawning svc0 6000 spawnDrawsFor)) 1 \<le> 2"
proof -
  have a: "\<forall>j. census svc0 j \<le> 20"
    by (simp add: census_svc0)
  with checkSpawning_cap [of svc0 6000 spawnDrawsFor 1] show ?thesis
    by (simp add: census_svc0)
qed

section \<open>Attack of spawned monsters\<close>



section \<open>Attack is never written after the spawn\<close>





















section \<open>Monster attacks\<close>




end
